theory Spec2Isabelle
  imports Complex_Main "HOL-Library.AList"
begin

text \<open>
  A model of \<^verbatim>\<open>src/player/player.js\<close> of the ESPN Fantasy Football API client: the
  class \<^verbatim>\<open>Player\<close> with its identity key, its constructor and its response map. What
  the file imports is a parameter; the mapping engine and the cache of its base classes,
  which are in other files, follow the specification.
\<close>

section \<open>JavaScript values\<close>

text \<open>
  The values that reach \<^verbatim>\<open>src/player/player.js\<close>: JSON documents and the parameter
  objects callers pass. A finite number is carried as the rational it denotes (every
  finite double is one; \<open>0\<close> and \<open>-0\<close>, which the code cannot tell apart, are both
  \<open>Num 0\<close>). An object is the list of its own enumerable properties in enumeration
  order; a property that is not listed reads as \<open>undefined\<close>.
\<close>

datatype jsnum = Num rat | NaN | PosInfinity | NegInfinity

datatype jsval =
    JUndefined
  | JNull
  | JBool bool
  | JNum jsnum
  | JStr string
  | JArr "jsval list"
  | JObj "(string \<times> jsval) list"

type_synonym props = "(string \<times> jsval) list"

text \<open>What a throw of the program carries.\<close>

datatype error =
    TypeError
  | Thrown jsval
  | MalformedDocument

text \<open>\<^verbatim>\<open>ToBoolean\<close>: the values \<^verbatim>\<open>if\<close>, \<^verbatim>\<open>&&\<close> and \<^verbatim>\<open>?:\<close> take for true.\<close>

fun truthy :: "jsval \<Rightarrow> bool" where
  "truthy JUndefined = False"
| "truthy JNull = False"
| "truthy (JBool b) = b"
| "truthy (JNum n) = (n \<noteq> Num 0 \<and> n \<noteq> NaN)"
| "truthy (JStr s) = (s \<noteq> [])"
| "truthy (JArr xs) = True"
| "truthy (JObj kvs) = True"

definition nullish :: "jsval \<Rightarrow> bool" where
  "nullish v = (v = JUndefined \<or> v = JNull)"

text \<open>Reading an own property of an object: \<open>undefined\<close> when it has none of that name.\<close>

definition lookup :: "props \<Rightarrow> string \<Rightarrow> jsval" where
  "lookup kvs k = (case map_of kvs k of Some v \<Rightarrow> v | None \<Rightarrow> JUndefined)"

text \<open>
  The member access \<^verbatim>\<open>v.k\<close>, for the names the source reads this way (\<^verbatim>\<open>id\<close>,
  \<^verbatim>\<open>seasonId\<close>, \<^verbatim>\<open>scoringPeriodId\<close>): a \<^verbatim>\<open>TypeError\<close> on \<^verbatim>\<open>undefined\<close> and
  \<^verbatim>\<open>null\<close>, the own property on an object, and \<open>undefined\<close> on a primitive or an
  array, none of which has a property of these names.
\<close>

definition member :: "jsval \<Rightarrow> string \<Rightarrow> error + jsval" where
  "member v k =
     (case v of
        JUndefined \<Rightarrow> Inl TypeError
      | JNull \<Rightarrow> Inl TypeError
      | JObj kvs \<Rightarrow> Inr (lookup kvs k)
      | _ \<Rightarrow> Inr JUndefined)"

section \<open>\<^verbatim>\<open>Player.getIDParams\<close>\<close>

text \<open>
  \<^verbatim>\<open>
  static getIDParams(params = {}) {
    if (params.id && params.seasonId && params.scoringPeriodId) {
      return { id: params.id, seasonId: params.seasonId,
               scoringPeriodId: params.scoringPeriodId };
    }
    return undefined;
  }
  \<close>
  The default applies to a missing or \<open>undefined\<close> argument only; \<^verbatim>\<open>&&\<close> stops at the
  first operand that is not truthy.
\<close>

definition getIDParams :: "jsval \<Rightarrow> error + jsval" where
  "getIDParams p =
     (let params = (if p = JUndefined then JObj [] else p) in
      case member params ''id'' of
        Inl e \<Rightarrow> Inl e
      | Inr i \<Rightarrow>
          if \<not> truthy i then Inr JUndefined
          else (case member params ''seasonId'' of
            Inl e \<Rightarrow> Inl e
          | Inr s \<Rightarrow>
              if \<not> truthy s then Inr JUndefined
              else (case member params ''scoringPeriodId'' of
                Inl e \<Rightarrow> Inl e
              | Inr sp \<Rightarrow>
                  if \<not> truthy sp then Inr JUndefined
                  else Inr (JObj [(''id'', i), (''seasonId'', s), (''scoringPeriodId'', sp)]))))"

section \<open>What \<^verbatim>\<open>player.js\<close> imports\<close>

text \<open>
  The file imports lodash, \<^verbatim>\<open>parsePlayerStats\<close> and three tables of
  \<^verbatim>\<open>constants.js\<close>, and it builds \<^verbatim>\<open>Date\<close> objects. None of these is defined in
  \<^verbatim>\<open>player.js\<close>; they are parameters of everything below. \<open>lodash_get obj path\<close> is
  \<^verbatim>\<open>_.get(obj, path)\<close>, \<open>lodash_toNumber\<close> is \<^verbatim>\<open>_.toNumber\<close>, \<open>new_Date v\<close> is
  \<^verbatim>\<open>new Date(v)\<close>; none of the three throws on the values above.
  \<^verbatim>\<open>parsePlayerStats\<close> takes one argument object and may throw.
\<close>

record externals =
  lodash_get :: "jsval \<Rightarrow> jsval \<Rightarrow> jsval"
  lodash_toNumber :: "jsval \<Rightarrow> jsval"
  new_Date :: "jsval \<Rightarrow> jsval"
  parsePlayerStats :: "jsval \<Rightarrow> error + jsval"
  nflTeamIdToNFLTeam :: jsval
  nflTeamIdToNFLTeamAbbreviation :: jsval
  slotCategoryIdToPositionMap :: jsval

text \<open>
  \<^verbatim>\<open>_.map(collection, iteratee)\<close> with a one-argument iteratee. lodash maps an array
  element by element, gives \<^verbatim>\<open>[]\<close> for \<^verbatim>\<open>undefined\<close>, \<^verbatim>\<open>null\<close>, a number and a boolean,
  walks any other array-like value by index (a string character by character, an object
  with a valid \<^verbatim>\<open>length\<close> from \<open>0\<close> to \<open>length - 1\<close>) and any other object by its own
  enumerable properties.
\<close>

fun show_nat :: "nat \<Rightarrow> string" where
  "show_nat n =
     (if n < 10 then [''0123456789'' ! n]
      else show_nat (n div 10) @ [''0123456789'' ! (n mod 10)])"

definition array_like_length :: "props \<Rightarrow> nat option" where
  "array_like_length kvs =
     (case lookup kvs ''length'' of
        JNum (Num r) \<Rightarrow>
          if 0 \<le> r \<and> r = of_int \<lfloor>r\<rfloor> \<and> r \<le> 9007199254740991 then Some (nat \<lfloor>r\<rfloor>) else None
      | _ \<Rightarrow> None)"

fun collection_values :: "jsval \<Rightarrow> jsval list" where
  "collection_values (JArr xs) = xs"
| "collection_values (JStr s) = map (\<lambda>c. JStr [c]) s"
| "collection_values (JObj kvs) =
     (case array_like_length kvs of
        Some n \<Rightarrow> map (\<lambda>i. lookup kvs (show_nat i)) [0..<n]
      | None \<Rightarrow> map snd kvs)"
| "collection_values v = []"

definition lodash_map :: "jsval \<Rightarrow> (jsval \<Rightarrow> jsval) \<Rightarrow> jsval" where
  "lodash_map collection iteratee = JArr (map iteratee (collection_values collection))"

section \<open>The class \<^verbatim>\<open>Player\<close>\<close>

subsection \<open>Static fields\<close>

definition displayName :: string where
  "displayName = ''Player''"

definition flattenResponse :: bool where
  "flattenResponse = True"

text \<open>
  The data properties \<^verbatim>\<open>player.js\<close> declares on the class itself. Inside the
  initializer of a static field, \<^verbatim>\<open>this\<close> is the class, so the arrow functions of
  \<^verbatim>\<open>responseMap\<close> read \<^verbatim>\<open>this.seasonId\<close> and \<^verbatim>\<open>this.scoringPeriodId\<close> from the
  properties of the class, not from an instance. The class properties are the
  parameter \<open>cls\<close> of the map; \<open>Player_statics\<close> are the ones this file declares
  besides \<^verbatim>\<open>responseMap\<close> itself.
\<close>

definition Player_statics :: props where
  "Player_statics = [(''displayName'', JStr displayName), (''flattenResponse'', JBool flattenResponse)]"

subsection \<open>The constructor\<close>

text \<open>
  \<^verbatim>\<open>
  constructor(options = {}) {
    super(options);
    this.seasonId = options.seasonId;
    this.scoringPeriodId = options.scoringPeriodId;
  }
  \<close>
  The base class is not part of \<^verbatim>\<open>player.js\<close>: \<open>super\<close> is a parameter. It receives
  the options and either throws or returns the properties of the new instance together
  with the options object as it has left it. The instance is a new, ordinary object:
  it is not the options object, and its properties can be written.
\<close>

record construction =
  this_object :: props
  options_object :: jsval

definition Player_constructor ::
  "(jsval \<Rightarrow> error + construction) \<Rightarrow> jsval \<Rightarrow> error + construction" where
  "Player_constructor super opts =
     (let options = (if opts = JUndefined then JObj [] else opts) in
      case super options of
        Inl e \<Rightarrow> Inl e
      | Inr c \<Rightarrow>
          (case member (options_object c) ''seasonId'' of
             Inl e \<Rightarrow> Inl e
           | Inr s \<Rightarrow>
               (case member (options_object c) ''scoringPeriodId'' of
                  Inl e \<Rightarrow> Inl e
                | Inr sp \<Rightarrow>
                    Inr (c\<lparr>this_object :=
                          AList.update ''scoringPeriodId'' sp
                            (AList.update ''seasonId'' s (this_object c))\<rparr>))))"

subsection \<open>The transforms of \<^verbatim>\<open>responseMap\<close>\<close>

text \<open>
  \<^verbatim>\<open>(responseData) => (responseData ? _.toNumber(responseData) : undefined)\<close>
\<close>

definition jerseyNumber_manualParse :: "externals \<Rightarrow> jsval \<Rightarrow> jsval" where
  "jerseyNumber_manualParse E responseData =
     (if truthy responseData then lodash_toNumber E responseData else JUndefined)"

text \<open>\<^verbatim>\<open>(responseData) => _.get(nflTeamIdToNFLTeam, responseData)\<close>, and its two siblings.\<close>

definition proTeam_manualParse :: "externals \<Rightarrow> jsval \<Rightarrow> jsval" where
  "proTeam_manualParse E responseData = lodash_get E (nflTeamIdToNFLTeam E) responseData"

definition proTeamAbbreviation_manualParse :: "externals \<Rightarrow> jsval \<Rightarrow> jsval" where
  "proTeamAbbreviation_manualParse E responseData =
     lodash_get E (nflTeamIdToNFLTeamAbbreviation E) responseData"

definition defaultPosition_manualParse :: "externals \<Rightarrow> jsval \<Rightarrow> jsval" where
  "defaultPosition_manualParse E responseData =
     lodash_get E (slotCategoryIdToPositionMap E) responseData"

text \<open>
  \<^verbatim>\<open>
  (responseData, data, rawData, constructorParams) => parsePlayerStats({
    responseData, constructorParams, usesPoints: true,
    scoringPeriodId: this.scoringPeriodId, seasonId: this.seasonId,
    statKey: 'appliedTotal', statSourceId: 0, statSplitTypeId: 1 })
  \<close>
  \<open>totalPoints_arguments\<close> is the object literal, in the order it is written.
\<close>

definition totalPoints_arguments :: "props \<Rightarrow> jsval \<Rightarrow> jsval \<Rightarrow> jsval" where
  "totalPoints_arguments cls responseData constructorParams =
     JObj [(''responseData'', responseData),
           (''constructorParams'', constructorParams),
           (''usesPoints'', JBool True),
           (''scoringPeriodId'', lookup cls ''scoringPeriodId''),
           (''seasonId'', lookup cls ''seasonId''),
           (''statKey'', JStr ''appliedTotal''),
           (''statSourceId'', JNum (Num 0)),
           (''statSplitTypeId'', JNum (Num 1))]"

definition totalPoints_manualParse ::
  "externals \<Rightarrow> props \<Rightarrow> jsval \<Rightarrow> jsval \<Rightarrow> jsval \<Rightarrow> jsval \<Rightarrow> error + jsval" where
  "totalPoints_manualParse E cls responseData data rawData constructorParams =
     parsePlayerStats E (totalPoints_arguments cls responseData constructorParams)"

text \<open>
  \<^verbatim>\<open>(responseData) => _.map(responseData, (posId) => _.get(slotCategoryIdToPositionMap, posId))\<close>
\<close>

definition eligiblePositions_manualParse :: "externals \<Rightarrow> jsval \<Rightarrow> jsval" where
  "eligiblePositions_manualParse E responseData =
     lodash_map responseData (\<lambda>posId. lodash_get E (slotCategoryIdToPositionMap E) posId)"

text \<open>\<^verbatim>\<open>(responseData) => (responseData ? new Date(responseData) : undefined)\<close>\<close>

definition acquiredDate_manualParse :: "externals \<Rightarrow> jsval \<Rightarrow> jsval" where
  "acquiredDate_manualParse E responseData =
     (if truthy responseData then new_Date E responseData else JUndefined)"

subsection \<open>\<^verbatim>\<open>responseMap\<close>\<close>

text \<open>
  An entry of a response map is a source name, or an object with \<^verbatim>\<open>key\<close>,
  \<^verbatim>\<open>manualParse\<close> and \<^verbatim>\<open>defaultValue\<close>, each optional. A transform takes the raw value,
  the result mapped so far, the raw document and the constructor parameters.
\<close>

type_synonym transform = "jsval \<Rightarrow> jsval \<Rightarrow> jsval \<Rightarrow> jsval \<Rightarrow> error + jsval"

datatype field_spec =
    Name string
  | Structured "string option" "transform option" "jsval option"

text \<open>The entries of \<^verbatim>\<open>Player.responseMap\<close>, in the order the file declares them.\<close>

definition responseMap :: "externals \<Rightarrow> props \<Rightarrow> (string \<times> field_spec) list" where
  "responseMap E cls =
     [(''id'', Name ''id''),
      (''firstName'', Name ''firstName''),
      (''fullName'', Name ''fullName''),
      (''lastName'', Name ''lastName''),
      (''jerseyNumber'', Structured (Some ''jersey'')
         (Some (\<lambda>responseData data rawData constructorParams.
            Inr (jerseyNumber_manualParse E responseData))) None),
      (''proTeam'', Structured (Some ''proTeamId'')
         (Some (\<lambda>responseData data rawData constructorParams.
            Inr (proTeam_manualParse E responseData))) None),
      (''proTeamAbbreviation'', Structured (Some ''proTeamId'')
         (Some (\<lambda>responseData data rawData constructorParams.
            Inr (proTeamAbbreviation_manualParse E responseData))) None),
      (''defaultPosition'', Structured (Some ''defaultPositionId'')
         (Some (\<lambda>responseData data rawData constructorParams.
            Inr (defaultPosition_manualParse E responseData))) None),
      (''totalPoints'', Structured (Some ''stats'')
         (Some (totalPoints_manualParse E cls)) None),
      (''eligiblePositions'', Structured (Some ''eligibleSlots'')
         (Some (\<lambda>responseData data rawData constructorParams.
            Inr (eligiblePositions_manualParse E responseData))) None),
      (''averageDraftPosition'', Name ''averageDraftPosition''),
      (''auctionValueAverage'', Name ''auctionValueAverage''),
      (''locked'', Name ''lineupLocked''),
      (''percentChange'', Name ''percentChange''),
      (''percentStarted'', Name ''percentStarted''),
      (''percentOwned'', Name ''percentOwned''),
      (''acquiredDate'', Structured (Some ''acquisitionDate'')
         (Some (\<lambda>responseData data rawData constructorParams.
            Inr (acquiredDate_manualParse E responseData))) None),
      (''availabilityStatus'', Name ''status''),
      (''isDroppable'', Name ''droppable''),
      (''isInjured'', Name ''injured''),
      (''injuryStatus'', Name ''injuryStatus''),
      (''outlooksByWeek'', Name ''outlooksByWeek'')]"

section \<open>The mapping engine of the base classes\<close>

text \<open>
  \<^verbatim>\<open>Player\<close> extends \<^verbatim>\<open>BaseCacheableObject\<close>, whose file is not among the sources:
  the engine that walks a response map and the cache are written here from sections 4.1
  to 4.4 of the specification. \<open>absent\<close> is \<open>undefined\<close>: a
  transform returns \<^verbatim>\<open>undefined\<close> to leave its field out.
\<close>

text \<open>
  Modelled from the spec: the source key of an entry (4.1, step 1), missing with the base
  class. A plain name is its own source key; a structured entry reads \<^verbatim>\<open>key\<close>, else
  the target name.
\<close>

fun source_key :: "string \<Rightarrow> field_spec \<Rightarrow> string" where
  "source_key target (Name k) = k"
| "source_key target (Structured key manualParse defaultValue) =
     (case key of Some k \<Rightarrow> k | None \<Rightarrow> target)"

text \<open>
  Modelled from the spec: the Field Resolver (4.1), missing with the base class. A
  plain name is looked up in the raw document. A structured entry reads the source key,
  hands the raw value to \<^verbatim>\<open>manualParse\<close> with the partial result, the raw document and
  the constructor parameters when there is one, and otherwise takes the raw value, or
  \<^verbatim>\<open>defaultValue\<close> when the raw value is absent.
\<close>

fun resolve :: "string \<Rightarrow> field_spec \<Rightarrow> props \<Rightarrow> props \<Rightarrow> jsval \<Rightarrow> error + jsval" where
  "resolve target (Name k) rawDocument partialResult constructorParams =
     Inr (lookup rawDocument k)"
| "resolve target (Structured key manualParse defaultValue) rawDocument partialResult
       constructorParams =
     (let sourceKey = source_key target (Structured key manualParse defaultValue);
          rawValue = lookup rawDocument sourceKey in
      case manualParse of
        Some f \<Rightarrow> f rawValue (JObj partialResult) (JObj rawDocument) constructorParams
      | None \<Rightarrow>
          Inr (if rawValue = JUndefined
               then (case defaultValue of Some d \<Rightarrow> d | None \<Rightarrow> JUndefined)
               else rawValue))"

text \<open>
  Modelled from the spec: steps 2 to 4 of the Schema Mapper (4.2), missing with the base
  class. The entries are resolved in declared order against the current result; a value
  that is not absent is set on the result; a throw of a transform ends the mapping.
\<close>

fun map_fields ::
  "(string \<times> field_spec) list \<Rightarrow> props \<Rightarrow> jsval \<Rightarrow> props \<Rightarrow> error + props" where
  "map_fields [] rawDocument constructorParams result = Inr result"
| "map_fields ((target, spec) # entries) rawDocument constructorParams result =
     (case resolve target spec rawDocument result constructorParams of
        Inl e \<Rightarrow> Inl e
      | Inr v \<Rightarrow>
          map_fields entries rawDocument constructorParams
            (if v = JUndefined then result else AList.update target v result))"

text \<open>
  Modelled from the spec: step 1 of the Schema Mapper (4.2), the flatten mode, missing
  with the base class. In flatten mode the nested known containers of the raw document
  are merged into a working copy. The spec names neither the known containers nor the
  value a merged name takes when it is already in use, so the merge is the parameter
  \<open>mergeContainers\<close>.
\<close>

definition working_copy :: "(props \<Rightarrow> props) \<Rightarrow> bool \<Rightarrow> props \<Rightarrow> props" where
  "working_copy mergeContainers flatten rawDocument =
     (if flatten then mergeContainers rawDocument else rawDocument)"

text \<open>
  Modelled from the spec: the Schema Mapper (4.2) as a whole, missing with the base
  class. A raw document that is not an object is a fatal construction error (section 7).
\<close>

definition map_document ::
  "(props \<Rightarrow> props) \<Rightarrow> (string \<times> field_spec) list \<Rightarrow> jsval \<Rightarrow> jsval \<Rightarrow> bool \<Rightarrow>
   error + props" where
  "map_document mergeContainers entries rawDocument constructorParams flatten =
     (case rawDocument of
        JObj document \<Rightarrow>
          map_fields entries (working_copy mergeContainers flatten document) constructorParams []
      | _ \<Rightarrow> Inl MalformedDocument)"

text \<open>The mapping of a \<^verbatim>\<open>Player\<close>: its response map in its flatten mode.\<close>

definition Player_map ::
  "externals \<Rightarrow> props \<Rightarrow> (props \<Rightarrow> props) \<Rightarrow> jsval \<Rightarrow> jsval \<Rightarrow> error + props" where
  "Player_map E cls mergeContainers rawDocument constructorParams =
     map_document mergeContainers (responseMap E cls) rawDocument constructorParams
       flattenResponse"

text \<open>
  Modelled from the spec: the state of the Cacheable Object Base (4.4), missing with the
  base class. The store maps an identity key to the reference of the object built for
  it; a reference is the index of the object among the objects built so far;
  \<open>mapper_runs\<close> counts the invocations of the mapper.
\<close>

record cache =
  store :: "(jsval \<times> nat) list"
  objects :: "props list"
  mapper_runs :: nat

text \<open>
  Modelled from the spec: \<^verbatim>\<open>getOrCreate\<close> of the Cacheable Object Base (4.4), missing
  with the base class. No key: the mapper runs and the store is not touched. A hit
  returns the stored reference, after overwriting the object in place when a refresh is
  requested. A miss runs the mapper and stores the new reference. A throw of the key
  builder or of the mapper leaves nothing behind.
\<close>

definition getOrCreate ::
  "(jsval \<Rightarrow> error + jsval) \<Rightarrow> (jsval \<Rightarrow> jsval \<Rightarrow> error + props) \<Rightarrow>
   cache \<Rightarrow> jsval \<Rightarrow> jsval \<Rightarrow> bool \<Rightarrow> error + nat \<times> cache" where
  "getOrCreate buildKey mapper c rawDocument constructorParams refresh =
     (case buildKey constructorParams of
        Inl e \<Rightarrow> Inl e
      | Inr key \<Rightarrow>
          if key = JUndefined then
            (case mapper rawDocument constructorParams of
               Inl e \<Rightarrow> Inl e
             | Inr obj \<Rightarrow>
                 Inr (length (objects c),
                      c\<lparr>objects := objects c @ [obj], mapper_runs := Suc (mapper_runs c)\<rparr>))
          else
            (case map_of (store c) key of
               Some r \<Rightarrow>
                 if refresh then
                   (case mapper rawDocument constructorParams of
                      Inl e \<Rightarrow> Inl e
                    | Inr obj \<Rightarrow>
                        Inr (r, c\<lparr>objects := (objects c)[r := obj],
                                   mapper_runs := Suc (mapper_runs c)\<rparr>))
                 else Inr (r, c)
             | None \<Rightarrow>
                 (case mapper rawDocument constructorParams of
                    Inl e \<Rightarrow> Inl e
                  | Inr obj \<Rightarrow>
                      Inr (length (objects c),
                           c\<lparr>store := (key, length (objects c)) # store c,
                             objects := objects c @ [obj],
                             mapper_runs := Suc (mapper_runs c)\<rparr>))))"

text \<open>The cache of \<^verbatim>\<open>Player\<close>: its key builder is \<^verbatim>\<open>getIDParams\<close>.\<close>

definition Player_getOrCreate ::
  "externals \<Rightarrow> props \<Rightarrow> (props \<Rightarrow> props) \<Rightarrow> cache \<Rightarrow> jsval \<Rightarrow> jsval \<Rightarrow> bool \<Rightarrow>
   error + nat \<times> cache" where
  "Player_getOrCreate E cls mergeContainers c rawDocument constructorParams refresh =
     getOrCreate getIDParams (Player_map E cls mergeContainers) c rawDocument constructorParams
       refresh"

section \<open>The mapping as a run in a program state\<close>

text \<open>
  The arrow functions of \<^verbatim>\<open>responseMap\<close> run in a program whose state they can read
  and could write: \<^verbatim>\<open>this.seasonId\<close> is read from the class at every call, and
  \<^verbatim>\<open>parsePlayerStats\<close> is code of another file. Here the state is explicit. It holds
  the properties of the class and, as one value, everything else a collaborator can
  reach. A collaborator takes the state and returns it, changed or not. lodash and
  \<^verbatim>\<open>Date\<close> construction have no effect on it.
\<close>

record world =
  class_properties :: props
  program_state :: jsval

type_synonym collaborator = "jsval \<Rightarrow> world \<Rightarrow> (error + jsval) \<times> world"

type_synonym effect_transform =
  "jsval \<Rightarrow> jsval \<Rightarrow> jsval \<Rightarrow> jsval \<Rightarrow> world \<Rightarrow> (error + jsval) \<times> world"

datatype field_effect =
    NameIn string
  | StructuredIn "string option" "effect_transform option" "jsval option"

text \<open>
  The transform of \<^verbatim>\<open>totalPoints\<close>: it reads \<^verbatim>\<open>this.scoringPeriodId\<close> and
  \<^verbatim>\<open>this.seasonId\<close> from the class as it is at the call, and calls the collaborator.
\<close>

definition totalPoints_in_world :: "collaborator \<Rightarrow> effect_transform" where
  "totalPoints_in_world stats responseData data rawData constructorParams w =
     stats (totalPoints_arguments (class_properties w) responseData constructorParams) w"

text \<open>
  The entries of \<^verbatim>\<open>Player.responseMap\<close> once more, each transform with the state it
  runs in. No transform of the file assigns anything: all but that of \<^verbatim>\<open>totalPoints\<close>
  hand the state on as they got it.
\<close>

definition responseMap_in_world :: "externals \<Rightarrow> collaborator \<Rightarrow> (string \<times> field_effect) list" where
  "responseMap_in_world E stats =
     [(''id'', NameIn ''id''),
      (''firstName'', NameIn ''firstName''),
      (''fullName'', NameIn ''fullName''),
      (''lastName'', NameIn ''lastName''),
      (''jerseyNumber'', StructuredIn (Some ''jersey'')
         (Some (\<lambda>responseData data rawData constructorParams w.
            (Inr (jerseyNumber_manualParse E responseData), w))) None),
      (''proTeam'', StructuredIn (Some ''proTeamId'')
         (Some (\<lambda>responseData data rawData constructorParams w.
            (Inr (proTeam_manualParse E responseData), w))) None),
      (''proTeamAbbreviation'', StructuredIn (Some ''proTeamId'')
         (Some (\<lambda>responseData data rawData constructorParams w.
            (Inr (proTeamAbbreviation_manualParse E responseData), w))) None),
      (''defaultPosition'', StructuredIn (Some ''defaultPositionId'')
         (Some (\<lambda>responseData data rawData constructorParams w.
            (Inr (defaultPosition_manualParse E responseData), w))) None),
      (''totalPoints'', StructuredIn (Some ''stats'')
         (Some (totalPoints_in_world stats)) None),
      (''eligiblePositions'', StructuredIn (Some ''eligibleSlots'')
         (Some (\<lambda>responseData data rawData constructorParams w.
            (Inr (eligiblePositions_manualParse E responseData), w))) None),
      (''averageDraftPosition'', NameIn ''averageDraftPosition''),
      (''auctionValueAverage'', NameIn ''auctionValueAverage''),
      (''locked'', NameIn ''lineupLocked''),
      (''percentChange'', NameIn ''percentChange''),
      (''percentStarted'', NameIn ''percentStarted''),
      (''percentOwned'', NameIn ''percentOwned''),
      (''acquiredDate'', StructuredIn (Some ''acquisitionDate'')
         (Some (\<lambda>responseData data rawData constructorParams w.
            (Inr (acquiredDate_manualParse E responseData), w))) None),
      (''availabilityStatus'', NameIn ''status''),
      (''isDroppable'', NameIn ''droppable''),
      (''isInjured'', NameIn ''injured''),
      (''injuryStatus'', NameIn ''injuryStatus''),
      (''outlooksByWeek'', NameIn ''outlooksByWeek'')]"

text \<open>
  Modelled from the spec: the Field Resolver (4.1), missing with the base class, with
  the state handed to the transform and taken back from it.
\<close>

fun resolve_in_world ::
  "string \<Rightarrow> field_effect \<Rightarrow> props \<Rightarrow> props \<Rightarrow> jsval \<Rightarrow> world \<Rightarrow> (error + jsval) \<times> world" where
  "resolve_in_world target (NameIn k) rawDocument partialResult constructorParams w =
     (Inr (lookup rawDocument k), w)"
| "resolve_in_world target (StructuredIn key manualParse defaultValue) rawDocument partialResult
       constructorParams w =
     (let sourceKey = (case key of Some k \<Rightarrow> k | None \<Rightarrow> target);
          rawValue = lookup rawDocument sourceKey in
      case manualParse of
        Some f \<Rightarrow> f rawValue (JObj partialResult) (JObj rawDocument) constructorParams w
      | None \<Rightarrow>
          (Inr (if rawValue = JUndefined
                then (case defaultValue of Some d \<Rightarrow> d | None \<Rightarrow> JUndefined)
                else rawValue), w))"

text \<open>
  Modelled from the spec: steps 2 to 4 of the Schema Mapper (4.2), missing with the base
  class, with the state threaded through the entries in declared order; a throw ends
  the mapping in the state the transform has left.
\<close>

fun map_fields_in_world ::
  "(string \<times> field_effect) list \<Rightarrow> props \<Rightarrow> jsval \<Rightarrow> props \<Rightarrow> world \<Rightarrow>
   (error + props) \<times> world" where
  "map_fields_in_world [] rawDocument constructorParams result w = (Inr result, w)"
| "map_fields_in_world ((target, spec) # entries) rawDocument constructorParams result w =
     (case resolve_in_world target spec rawDocument result constructorParams w of
        (Inl e, w') \<Rightarrow> (Inl e, w')
      | (Inr v, w') \<Rightarrow>
          map_fields_in_world entries rawDocument constructorParams
            (if v = JUndefined then result else AList.update target v result) w')"

text \<open>
  Modelled from the spec: the Schema Mapper (4.2) as a whole, missing with the base
  class, in a program state.
\<close>

definition map_document_in_world ::
  "(props \<Rightarrow> props) \<Rightarrow> (string \<times> field_effect) list \<Rightarrow> jsval \<Rightarrow> jsval \<Rightarrow> bool \<Rightarrow> world \<Rightarrow>
   (error + props) \<times> world" where
  "map_document_in_world mergeContainers entries rawDocument constructorParams flatten w =
     (case rawDocument of
        JObj document \<Rightarrow>
          map_fields_in_world entries (working_copy mergeContainers flatten document)
            constructorParams [] w
      | _ \<Rightarrow> (Inl MalformedDocument, w))"

text \<open>The mapping of a \<^verbatim>\<open>Player\<close> in a program state.\<close>

definition Player_map_in_world ::
  "externals \<Rightarrow> collaborator \<Rightarrow> (props \<Rightarrow> props) \<Rightarrow> jsval \<Rightarrow> jsval \<Rightarrow> world \<Rightarrow>
   (error + props) \<times> world" where
  "Player_map_in_world E stats mergeContainers rawDocument constructorParams w =
     map_document_in_world mergeContainers (responseMap_in_world E stats) rawDocument
       constructorParams flattenResponse w"

section \<open>Concrete imports for the examples\<close>

text \<open>
  Stand-ins for the imports, used where a statement is evaluated on an example. On the
  values of the examples they agree with lodash: \<^verbatim>\<open>_.get\<close> with a path that is a
  non-negative integer, a string without dots or brackets or \<^verbatim>\<open>undefined\<close> reads the
  property of that name; \<^verbatim>\<open>_.toNumber\<close> returns a number as it is and reads a string of
  decimal digits as the number it writes. The tables have the shape of those of
  \<^verbatim>\<open>constants.js\<close>, an object keyed by the id. The stand-in for \<^verbatim>\<open>parsePlayerStats\<close>
  reads the property named by \<^verbatim>\<open>statKey\<close> from the payload.
\<close>

definition example_get :: "jsval \<Rightarrow> jsval \<Rightarrow> jsval" where
  "example_get obj path =
     (case obj of
        JObj kvs \<Rightarrow>
          (case path of
             JStr k \<Rightarrow> lookup kvs k
           | JNum (Num r) \<Rightarrow>
               if 0 \<le> r \<and> r = of_int \<lfloor>r\<rfloor> then lookup kvs (show_nat (nat \<lfloor>r\<rfloor>)) else JUndefined
           | JUndefined \<Rightarrow> lookup kvs ''undefined''
           | _ \<Rightarrow> JUndefined)
      | _ \<Rightarrow> JUndefined)"

definition example_toNumber :: "jsval \<Rightarrow> jsval" where
  "example_toNumber v =
     (case v of
        JNum n \<Rightarrow> JNum n
      | JStr s \<Rightarrow>
          if list_all (\<lambda>c. 48 \<le> (of_char c :: nat) \<and> (of_char c :: nat) \<le> 57) s
          then JNum (Num (of_nat (foldl (\<lambda>a c. 10 * a + (of_char c - 48)) (0::nat) s)))
          else JNum NaN
      | _ \<Rightarrow> JNum NaN)"

definition example_parsePlayerStats :: "jsval \<Rightarrow> error + jsval" where
  "example_parsePlayerStats args =
     (case args of
        JObj a \<Rightarrow>
          (case (lookup a ''responseData'', lookup a ''statKey'') of
             (JObj payload, JStr k) \<Rightarrow> Inr (lookup payload k)
           | _ \<Rightarrow> Inr JUndefined)
      | _ \<Rightarrow> Inr JUndefined)"

definition example_externals :: externals where
  "example_externals =
     \<lparr>lodash_get = example_get,
      lodash_toNumber = example_toNumber,
      new_Date = (\<lambda>v. JObj [(''Date'', v)]),
      parsePlayerStats = example_parsePlayerStats,
      nflTeamIdToNFLTeam = JObj [(''3'', JStr ''Example Team'')],
      nflTeamIdToNFLTeamAbbreviation = JObj [(''3'', JStr ''EX'')],
      slotCategoryIdToPositionMap = JObj [(''0'', JStr ''QB''), (''2'', JStr ''RB'')]\<rparr>"

text \<open>
  Two collaborators for the examples: the stand-in above, which leaves the state alone,
  and one that answers with the program state and flips it.
\<close>

definition example_stats :: collaborator where
  "example_stats args w = (example_parsePlayerStats args, w)"

definition counting_stats :: collaborator where
  "counting_stats args w =
     (Inr (program_state w),
      w\<lparr>program_state := (if program_state w = JNum (Num 0) then JNum (Num 1) else JNum (Num 0))\<rparr>)"

section \<open>The identity key\<close>

lemma getIDParams_object:
  "getIDParams (JObj ps) =
     Inr (if truthy (lookup ps ''id'') \<and> truthy (lookup ps ''seasonId'')
             \<and> truthy (lookup ps ''scoringPeriodId'')
          then JObj [(''id'', lookup ps ''id''), (''seasonId'', lookup ps ''seasonId''),
                     (''scoringPeriodId'', lookup ps ''scoringPeriodId'')]
          else JUndefined)"
  by (simp add: getIDParams_def member_def Let_def)

lemma lookup_absent: "k \<notin> fst ` set kvs \<Longrightarrow> lookup kvs k = JUndefined"
  by (simp add: lookup_def map_of_eq_None_iff[THEN iffD2])

text \<open>
  C1, as the code has it. The guard of \<^verbatim>\<open>getIDParams\<close> tests each parameter for
  truth, not for presence: for every parameter object the result is the key
  \<^verbatim>\<open>{id, seasonId, scoringPeriodId}\<close>, in this order whatever the order of the caller,
  when all three parameters are truthy, and \<^verbatim>\<open>undefined\<close> when one of them is missing
  or is \<open>0\<close>, \<open>NaN\<close>, the empty string, \<^verbatim>\<open>false\<close> or \<^verbatim>\<open>null\<close>. Parameter objects
  with equal triples get equal results.
\<close>

theorem getIDParams_key_iff_truthy:
  "getIDParams (JObj ps) =
     Inr (if truthy (lookup ps ''id'') \<and> truthy (lookup ps ''seasonId'')
             \<and> truthy (lookup ps ''scoringPeriodId'')
          then JObj [(''id'', lookup ps ''id''), (''seasonId'', lookup ps ''seasonId''),
                     (''scoringPeriodId'', lookup ps ''scoringPeriodId'')]
          else JUndefined)
   \<and> (\<forall>qs. lookup qs ''id'' = lookup ps ''id'' \<and> lookup qs ''seasonId'' = lookup ps ''seasonId''
          \<and> lookup qs ''scoringPeriodId'' = lookup ps ''scoringPeriodId''
        \<longrightarrow> getIDParams (JObj qs) = getIDParams (JObj ps))"
proof (intro conjI allI impI)
  show "getIDParams (JObj ps) =
     Inr (if truthy (lookup ps ''id'') \<and> truthy (lookup ps ''seasonId'')
             \<and> truthy (lookup ps ''scoringPeriodId'')
          then JObj [(''id'', lookup ps ''id''), (''seasonId'', lookup ps ''seasonId''),
                     (''scoringPeriodId'', lookup ps ''scoringPeriodId'')]
          else JUndefined)"
    by (rule getIDParams_object)
next
  fix qs
  assume "lookup qs ''id'' = lookup ps ''id'' \<and> lookup qs ''seasonId'' = lookup ps ''seasonId''
          \<and> lookup qs ''scoringPeriodId'' = lookup ps ''scoringPeriodId''"
  then show "getIDParams (JObj qs) = getIDParams (JObj ps)"
    by (simp only: getIDParams_object)
qed

text \<open>
  The caller lists \<^verbatim>\<open>scoringPeriodId\<close> first and adds a parameter of its own: the key
  comes out in declared order. Without \<^verbatim>\<open>scoringPeriodId\<close> there is no key.
\<close>

theorem getIDParams_key_iff_truthy_witness:
  "getIDParams (JObj [(''scoringPeriodId'', JNum (Num 1)), (''name'', JStr ''x''),
                      (''id'', JNum (Num 7)), (''seasonId'', JNum (Num 2023))])
     = Inr (JObj [(''id'', JNum (Num 7)), (''seasonId'', JNum (Num 2023)),
                  (''scoringPeriodId'', JNum (Num 1))])
   \<and> getIDParams (JObj [(''id'', JNum (Num 7)), (''seasonId'', JNum (Num 2023))]) = Inr JUndefined
   \<and> getIDParams (JObj [(''id'', JNum (Num 7)), (''seasonId'', JNum (Num 2023)),
                        (''scoringPeriodId'', JNum (Num 1))])
     = getIDParams (JObj [(''scoringPeriodId'', JNum (Num 1)), (''name'', JStr ''x''),
                      (''id'', JNum (Num 7)), (''seasonId'', JNum (Num 2023))])"
  using getIDParams_key_iff_truthy
    [of "[(''scoringPeriodId'', JNum (Num 1)), (''name'', JStr ''x''),
          (''id'', JNum (Num 7)), (''seasonId'', JNum (Num 2023))]"]
    getIDParams_key_iff_truthy [of "[(''id'', JNum (Num 7)), (''seasonId'', JNum (Num 2023))]"]
  by (simp add: lookup_def)

text \<open>
  C1 as it is stated fails: with \<^verbatim>\<open>{id: 7, seasonId: 2023, scoringPeriodId: 0}\<close> every
  identity parameter is present and none is \<^verbatim>\<open>null\<close> or \<^verbatim>\<open>undefined\<close>, and the
  result is \<^verbatim>\<open>undefined\<close>, because \<open>0\<close> is not truthy.
\<close>

theorem getIDParams_nonnullish_counterexample:
  "\<not> nullish (lookup [(''id'', JNum (Num 7)), (''seasonId'', JNum (Num 2023)),
                       (''scoringPeriodId'', JNum (Num 0))] ''id'')
   \<and> \<not> nullish (lookup [(''id'', JNum (Num 7)), (''seasonId'', JNum (Num 2023)),
                       (''scoringPeriodId'', JNum (Num 0))] ''seasonId'')
   \<and> \<not> nullish (lookup [(''id'', JNum (Num 7)), (''seasonId'', JNum (Num 2023)),
                       (''scoringPeriodId'', JNum (Num 0))] ''scoringPeriodId'')
   \<and> getIDParams (JObj [(''id'', JNum (Num 7)), (''seasonId'', JNum (Num 2023)),
                        (''scoringPeriodId'', JNum (Num 0))]) = Inr JUndefined"
  by (simp add: getIDParams_def member_def lookup_def nullish_def)

text \<open>
  C9. Two parameter objects that agree on \<^verbatim>\<open>id\<close>, \<^verbatim>\<open>seasonId\<close> and
  \<^verbatim>\<open>scoringPeriodId\<close> get equal results from \<^verbatim>\<open>getIDParams\<close>, whatever else they
  hold and in whatever order: the result reads no other parameter.
\<close>

theorem getIDParams_identity_only:
  "lookup ps ''id'' = lookup qs ''id'' \<Longrightarrow>
   lookup ps ''seasonId'' = lookup qs ''seasonId'' \<Longrightarrow>
   lookup ps ''scoringPeriodId'' = lookup qs ''scoringPeriodId'' \<Longrightarrow>
   getIDParams (JObj ps) = getIDParams (JObj qs)"
  by (simp only: getIDParams_object)

theorem getIDParams_identity_only_witness:
  "getIDParams (JObj [(''id'', JNum (Num 7)), (''seasonId'', JNum (Num 2023)),
                      (''scoringPeriodId'', JNum (Num 1)), (''leagueId'', JNum (Num 5))])
   = getIDParams (JObj [(''leagueId'', JNum (Num 99)), (''scoringPeriodId'', JNum (Num 1)),
                      (''id'', JNum (Num 7)), (''seasonId'', JNum (Num 2023)),
                      (''stats'', JArr [])])"
  by (rule getIDParams_identity_only) (simp_all add: lookup_def)

section \<open>The transforms\<close>

text \<open>
  C6, as the code has it. The transform of \<^verbatim>\<open>jerseyNumber\<close> tests the raw value for
  truth: it returns \<^verbatim>\<open>_.toNumber\<close> of a truthy value and \<^verbatim>\<open>undefined\<close> for every
  other one, the missing value among them, for which it does not throw.
\<close>

theorem jerseyNumber_truthy_conversion:
  "jerseyNumber_manualParse E v = (if truthy v then lodash_toNumber E v else JUndefined)
   \<and> jerseyNumber_manualParse E JUndefined = JUndefined"
  by (simp add: jerseyNumber_manualParse_def)

theorem jerseyNumber_truthy_conversion_witness:
  "jerseyNumber_manualParse example_externals (JStr ''12'') = JNum (Num 12)
   \<and> jerseyNumber_manualParse example_externals JUndefined = JUndefined"
  using jerseyNumber_truthy_conversion [of example_externals "JStr ''12''"]
  by (simp add: example_externals_def example_toNumber_def)

text \<open>
  C6 as it is stated fails: the jersey \<open>0\<close> is present and \<^verbatim>\<open>_.toNumber(0)\<close> is \<open>0\<close>,
  but the transform returns \<^verbatim>\<open>undefined\<close>.
\<close>

theorem jerseyNumber_present_counterexample:
  "JNum (Num 0) \<noteq> JUndefined
   \<and> lodash_toNumber example_externals (JNum (Num 0)) = JNum (Num 0)
   \<and> jerseyNumber_manualParse example_externals (JNum (Num 0)) = JUndefined"
  by (simp add: jerseyNumber_manualParse_def example_externals_def example_toNumber_def)

text \<open>
  C2. The call the transform of \<^verbatim>\<open>totalPoints\<close> makes when the constructor
  parameters are \<^verbatim>\<open>{seasonId: 2023, scoringPeriodId: 1}\<close>. The claim has the call
  carry the season 2023 and the period 1 of these parameters. The code passes
  \<^verbatim>\<open>this.seasonId\<close> and \<^verbatim>\<open>this.scoringPeriodId\<close>, and in the initializer of a static
  field \<^verbatim>\<open>this\<close> is the class, on which \<^verbatim>\<open>player.js\<close> declares neither: both
  arguments are \<^verbatim>\<open>undefined\<close>, while the constructor has stored the two ids on the
  instance.
\<close>

theorem totalPoints_passes_class_properties:
  "member (totalPoints_arguments Player_statics (JArr [])
             (JObj [(''seasonId'', JNum (Num 2023)), (''scoringPeriodId'', JNum (Num 1))]))
          ''seasonId'' = Inr JUndefined
   \<and> member (JObj [(''seasonId'', JNum (Num 2023)), (''scoringPeriodId'', JNum (Num 1))])
          ''seasonId'' = Inr (JNum (Num 2023))
   \<and> member (totalPoints_arguments Player_statics (JArr [])
             (JObj [(''seasonId'', JNum (Num 2023)), (''scoringPeriodId'', JNum (Num 1))]))
          ''scoringPeriodId'' = Inr JUndefined
   \<and> member (JObj [(''seasonId'', JNum (Num 2023)), (''scoringPeriodId'', JNum (Num 1))])
          ''scoringPeriodId'' = Inr (JNum (Num 1))"
  by (simp add: totalPoints_arguments_def member_def lookup_def Player_statics_def)

lemma eligiblePositions_absent: "eligiblePositions_manualParse E JUndefined = JArr []"
  by (simp add: eligiblePositions_manualParse_def lodash_map_def)

lemma eligiblePositions_list:
  "eligiblePositions_manualParse E (JArr xs) =
     JArr (map (lodash_get E (slotCategoryIdToPositionMap E)) xs)"
  by (simp add: eligiblePositions_manualParse_def lodash_map_def)

lemma eligiblePositions_never_absent: "eligiblePositions_manualParse E v \<noteq> JUndefined"
  by (simp add: eligiblePositions_manualParse_def lodash_map_def)

section \<open>The constructor\<close>

text \<open>
  C10. For every options value but \<^verbatim>\<open>null\<close>, the missing one included, and a base
  constructor that returns and leaves the options as they are, the constructor of
  \<^verbatim>\<open>Player\<close> returns, the instance has \<^verbatim>\<open>seasonId\<close> and \<^verbatim>\<open>scoringPeriodId\<close> equal to
  those of the options (\<^verbatim>\<open>undefined\<close> where the options have none) and the options
  are as they were.
\<close>

theorem Player_constructor_sets_context:
  assumes "options = (if opts = JUndefined then JObj [] else opts)"
    and "options \<noteq> JNull"
    and "super options = Inr c"
    and "options_object c = options"
  shows "\<exists>c' s sp. Player_constructor super opts = Inr c'
           \<and> member options ''seasonId'' = Inr s
           \<and> member options ''scoringPeriodId'' = Inr sp
           \<and> lookup (this_object c') ''seasonId'' = s
           \<and> lookup (this_object c') ''scoringPeriodId'' = sp
           \<and> options_object c' = options"
proof -
  from assms(1,2) have "options \<noteq> JUndefined" "options \<noteq> JNull" by (auto split: if_splits)
  then obtain s sp where
    s: "member options ''seasonId'' = Inr s" and sp: "member options ''scoringPeriodId'' = Inr sp"
    by (cases options) (auto simp: member_def)
  let ?c' = "c\<lparr>this_object :=
      AList.update ''scoringPeriodId'' sp (AList.update ''seasonId'' s (this_object c))\<rparr>"
  from assms s sp have "Player_constructor super opts = Inr ?c'"
    by (simp add: Player_constructor_def Let_def)
  moreover have "lookup (this_object ?c') ''seasonId'' = s"
    "lookup (this_object ?c') ''scoringPeriodId'' = sp"
    by (simp_all add: lookup_def update_conv')
  moreover from assms(4) have "options_object ?c' = options" by simp
  ultimately show ?thesis using s sp by blast
qed

theorem Player_constructor_sets_context_witness:
  "(\<exists>c'. Player_constructor (\<lambda>options. Inr \<lparr>this_object = [], options_object = options\<rparr>)
           (JObj [(''seasonId'', JNum (Num 2023)), (''id'', JNum (Num 7))]) = Inr c'
         \<and> lookup (this_object c') ''seasonId'' = JNum (Num 2023)
         \<and> lookup (this_object c') ''scoringPeriodId'' = JUndefined
         \<and> options_object c' = JObj [(''seasonId'', JNum (Num 2023)), (''id'', JNum (Num 7))])
   \<and> (\<exists>c'. Player_constructor (\<lambda>options. Inr \<lparr>this_object = [], options_object = options\<rparr>)
           JUndefined = Inr c'
         \<and> lookup (this_object c') ''seasonId'' = JUndefined
         \<and> lookup (this_object c') ''scoringPeriodId'' = JUndefined)"
  using Player_constructor_sets_context
    [of "JObj [(''seasonId'', JNum (Num 2023)), (''id'', JNum (Num 7))]"
        "JObj [(''seasonId'', JNum (Num 2023)), (''id'', JNum (Num 7))]"
        "\<lambda>options. Inr \<lparr>this_object = [], options_object = options\<rparr>"
        "\<lparr>this_object = [], options_object =
            JObj [(''seasonId'', JNum (Num 2023)), (''id'', JNum (Num 7))]\<rparr>"]
    Player_constructor_sets_context
    [of "JObj []" JUndefined
        "\<lambda>options. Inr \<lparr>this_object = [], options_object = options\<rparr>"
        "\<lparr>this_object = [], options_object = JObj []\<rparr>"]
  by (auto simp: member_def lookup_def)

section \<open>The mapping engine, field by field\<close>

lemma map_of_set_field:
  "map_of (if v = JUndefined then res else AList.update t v res) k =
     (if k = t \<and> v \<noteq> JUndefined then Some v else map_of res k)"
  by (simp add: update_conv')

text \<open>An entry leaves alone every field but its target.\<close>

lemma map_fields_frame:
  "map_fields es doc ps res = Inr r \<Longrightarrow> t \<notin> fst ` set es \<Longrightarrow> map_of r t = map_of res t"
proof (induction es arbitrary: res)
  case Nil
  then show ?case by simp
next
  case (Cons e es)
  obtain t0 spec where e: "e = (t0, spec)" by (cases e)
  from Cons.prems e obtain v where
    v: "resolve t0 spec doc res ps = Inr v" and
    rest: "map_fields es doc ps (if v = JUndefined then res else AList.update t0 v res) = Inr r"
    by (auto split: sum.splits)
  from Cons.prems e have "t \<noteq> t0" and "t \<notin> fst ` set es" by auto
  with Cons.IH[OF rest] show ?case by (simp add: map_of_set_field)
qed

text \<open>
  In a map whose target names are distinct, the field of the result is what the entry
  of that name resolved to.
\<close>

lemma map_fields_field:
  "map_fields es doc ps res = Inr r \<Longrightarrow> distinct (map fst es) \<Longrightarrow> (t, spec) \<in> set es \<Longrightarrow>
   \<exists>partial v. resolve t spec doc partial ps = Inr v \<and>
     map_of r t = (if v = JUndefined then map_of res t else Some v)"
proof (induction es arbitrary: res)
  case Nil
  then show ?case by simp
next
  case (Cons e es)
  obtain t0 spec0 where e: "e = (t0, spec0)" by (cases e)
  from Cons.prems(1) e obtain v0 where
    v0: "resolve t0 spec0 doc res ps = Inr v0" and
    rest: "map_fields es doc ps (if v0 = JUndefined then res else AList.update t0 v0 res) = Inr r"
    by (auto split: sum.splits)
  show ?case
  proof (cases "(t, spec) = (t0, spec0)")
    case True
    from Cons.prems(2) e True have "t \<notin> fst ` set es" by auto
    from map_fields_frame[OF rest this] True v0 show ?thesis
      by (auto simp: map_of_set_field)
  next
    case False
    with Cons.prems(3) e have mem: "(t, spec) \<in> set es" by auto
    with Cons.prems(2) e have "t \<noteq> t0" by (auto simp: image_iff)
    from Cons.prems(2) have "distinct (map fst es)" by simp
    from Cons.IH[OF rest this mem] obtain partial v where
      "resolve t spec doc partial ps = Inr v"
      "map_of r t = (if v = JUndefined
          then map_of (if v0 = JUndefined then res else AList.update t0 v0 res) t else Some v)"
      by blast
    with \<open>t \<noteq> t0\<close> have
      "resolve t spec doc partial ps = Inr v \<and>
       map_of r t = (if v = JUndefined then map_of res t else Some v)"
      by (simp add: map_of_set_field)
    then show ?thesis by blast
  qed
qed

text \<open>The mapping returns when every entry resolves.\<close>

lemma map_fields_returns:
  "(\<And>t spec partial. (t, spec) \<in> set es \<Longrightarrow> \<exists>v. resolve t spec doc partial ps = Inr v) \<Longrightarrow>
   \<exists>r. map_fields es doc ps res = Inr r"
proof (induction es arbitrary: res)
  case Nil
  then show ?case by simp
next
  case (Cons e es)
  obtain t0 spec0 where e: "e = (t0, spec0)" by (cases e)
  from Cons.prems[of t0 spec0 res] e obtain v where v: "resolve t0 spec0 doc res ps = Inr v" by auto
  have "\<exists>r. map_fields es doc ps (if v = JUndefined then res else AList.update t0 v res) = Inr r"
    by (rule Cons.IH) (use Cons.prems in auto)
  with e v show ?case by simp
qed

text \<open>Two documents on which every entry resolves alike are mapped alike.\<close>

lemma map_fields_cong:
  "(\<And>t spec partial. (t, spec) \<in> set es \<Longrightarrow>
      resolve t spec d1 partial ps = resolve t spec d2 partial ps) \<Longrightarrow>
   map_fields es d1 ps res = map_fields es d2 ps res"
proof (induction es arbitrary: res)
  case Nil
  then show ?case by simp
next
  case (Cons e es)
  obtain t0 spec0 where e: "e = (t0, spec0)" by (cases e)
  from Cons.prems[of t0 spec0 res] e
  have head: "resolve t0 spec0 d1 res ps = resolve t0 spec0 d2 res ps" by simp
  have tail: "\<And>res'. map_fields es d1 ps res' = map_fields es d2 ps res'"
    by (rule Cons.IH) (use Cons.prems in auto)
  from e head tail show ?case by (simp split: sum.splits)
qed

lemma responseMap_distinct: "distinct (map fst (responseMap E cls))"
  by (simp add: responseMap_def)

text \<open>Of the transforms of \<^verbatim>\<open>Player\<close>, only \<^verbatim>\<open>totalPoints\<close> can throw.\<close>

lemma responseMap_resolves:
  assumes "parsePlayerStats E (totalPoints_arguments cls (lookup doc ''stats'') ps) = Inr tp"
    and "(t, spec) \<in> set (responseMap E cls)"
  shows "\<exists>v. resolve t spec doc partial ps = Inr v"
  using assms by (auto simp: responseMap_def totalPoints_manualParse_def)

lemma map_document_returns:
  assumes "parsePlayerStats E (totalPoints_arguments cls
             (lookup (working_copy mc fl document) ''stats'') params) = Inr tp"
  shows "\<exists>r. map_document mc (responseMap E cls) (JObj document) params fl = Inr r"
  unfolding map_document_def jsval.case
  by (rule map_fields_returns) (rule responseMap_resolves[OF assms])

lemma in_keys_iff: "(k \<in> fst ` set kvs) = (map_of kvs k \<noteq> None)"
  by (simp add: map_of_eq_None_iff)

text \<open>
  The field an entry of \<^verbatim>\<open>Player.responseMap\<close> leaves in the result, when the entry
  resolves to the same value whatever the partial result: the field is set to that
  value, and left out when the value is \<^verbatim>\<open>undefined\<close>.
\<close>

lemma mapped_field:
  assumes "map_document mc (responseMap E cls) (JObj document) params fl = Inr r"
    and "(t, spec) \<in> set (responseMap E cls)"
    and "\<And>partial. resolve t spec (working_copy mc fl document) partial params = Inr v"
  shows "lookup r t = v \<and> (t \<in> fst ` set r) = (v \<noteq> JUndefined)"
proof -
  from assms(1) have m:
    "map_fields (responseMap E cls) (working_copy mc fl document) params [] = Inr r"
    by (simp add: map_document_def)
  from map_fields_field[OF m responseMap_distinct assms(2)] assms(3)
  have "map_of r t = (if v = JUndefined then None else Some v)" by auto
  then show ?thesis by (auto simp: lookup_def in_keys_iff)
qed

lemmas evaluate =
  map_document_def responseMap_def working_copy_def lookup_def
  jerseyNumber_manualParse_def proTeam_manualParse_def proTeamAbbreviation_manualParse_def
  defaultPosition_manualParse_def totalPoints_manualParse_def totalPoints_arguments_def
  eligiblePositions_manualParse_def acquiredDate_manualParse_def lodash_map_def
  example_externals_def example_get_def example_toNumber_def example_parsePlayerStats_def
  Player_statics_def displayName_def

section \<open>Mapping with \<^verbatim>\<open>Player.responseMap\<close>\<close>

text \<open>
  The statements of this section are about the document the entries are resolved
  against: the raw document, or in flatten mode, which is the mode of \<^verbatim>\<open>Player\<close>, its
  working copy \<open>w\<close>. The mapping returns when \<^verbatim>\<open>parsePlayerStats\<close> does.
\<close>

lemma Player_map_flattens:
  "Player_map E cls mc rawDocument params =
     map_document mc (responseMap E cls) rawDocument params True"
  by (simp add: Player_map_def flattenResponse_def)

text \<open>
  C3. Mapping a document with the response map of \<^verbatim>\<open>Player\<close> copies \<^verbatim>\<open>id\<close> from
  the field \<^verbatim>\<open>id\<close> and sets \<^verbatim>\<open>proTeam\<close> to the lookup of the field \<^verbatim>\<open>proTeamId\<close> in
  the team table. Without a \<^verbatim>\<open>proTeamId\<close> the lookup is made with \<^verbatim>\<open>undefined\<close>; a
  field is on the result exactly when its value is not \<^verbatim>\<open>undefined\<close>, so \<^verbatim>\<open>proTeam\<close>
  is left out when the lookup finds nothing, and \<^verbatim>\<open>id\<close> stays.
\<close>

theorem responseMap_id_and_proTeam:
  assumes "parsePlayerStats E (totalPoints_arguments cls (lookup w ''stats'') params) = Inr tp"
    and "w = working_copy mc fl document"
  shows "\<exists>r. map_document mc (responseMap E cls) (JObj document) params fl = Inr r
           \<and> lookup r ''id'' = lookup w ''id''
           \<and> (''id'' \<in> fst ` set r) = (lookup w ''id'' \<noteq> JUndefined)
           \<and> lookup r ''proTeam'' = lodash_get E (nflTeamIdToNFLTeam E) (lookup w ''proTeamId'')
           \<and> (''proTeam'' \<in> fst ` set r)
               = (lodash_get E (nflTeamIdToNFLTeam E) (lookup w ''proTeamId'') \<noteq> JUndefined)
           \<and> (''proTeamId'' \<notin> fst ` set w \<longrightarrow>
                lookup r ''proTeam'' = lodash_get E (nflTeamIdToNFLTeam E) JUndefined)"
proof -
  from assms map_document_returns[of E cls mc fl document params tp] obtain r where
    r: "map_document mc (responseMap E cls) (JObj document) params fl = Inr r" by auto
  have "(''id'', Name ''id'') \<in> set (responseMap E cls)" by (simp add: responseMap_def)
  from mapped_field[OF r this, of "lookup w ''id''"] assms(2)
  have id: "lookup r ''id'' = lookup w ''id''"
    "(''id'' \<in> fst ` set r) = (lookup w ''id'' \<noteq> JUndefined)" by auto
  have "(''proTeam'', Structured (Some ''proTeamId'')
         (Some (\<lambda>responseData data rawData constructorParams.
            Inr (proTeam_manualParse E responseData))) None) \<in> set (responseMap E cls)"
    by (simp add: responseMap_def)
  from mapped_field[OF r this, of "proTeam_manualParse E (lookup w ''proTeamId'')"] assms(2)
  have pt: "lookup r ''proTeam'' = proTeam_manualParse E (lookup w ''proTeamId'')"
    "(''proTeam'' \<in> fst ` set r) = (proTeam_manualParse E (lookup w ''proTeamId'') \<noteq> JUndefined)"
    by auto
  from r id pt show ?thesis
    by (auto simp: proTeam_manualParse_def lookup_absent)
qed

text \<open>
  The two scenarios of the specification: \<^verbatim>\<open>{id: 7, proTeamId: 3}\<close> with the table
  \<^verbatim>\<open>{3: 'Example Team'}\<close>, and \<^verbatim>\<open>{id: 7}\<close>.
\<close>

theorem responseMap_id_and_proTeam_witness:
  "(\<exists>r. map_document (\<lambda>d. d) (responseMap example_externals Player_statics)
          (JObj [(''id'', JNum (Num 7)), (''proTeamId'', JNum (Num 3))]) (JObj []) False = Inr r
        \<and> lookup r ''id'' = JNum (Num 7) \<and> lookup r ''proTeam'' = JStr ''Example Team'')
   \<and> (\<exists>r. map_document (\<lambda>d. d) (responseMap example_externals Player_statics)
          (JObj [(''id'', JNum (Num 7))]) (JObj []) False = Inr r
        \<and> lookup r ''id'' = JNum (Num 7) \<and> ''id'' \<in> fst ` set r
        \<and> lookup r ''proTeam'' = JUndefined \<and> ''proTeam'' \<notin> fst ` set r)"
proof -
  have a: "parsePlayerStats example_externals (totalPoints_arguments Player_statics
      (lookup [(''id'', JNum (Num 7)), (''proTeamId'', JNum (Num 3))] ''stats'') (JObj []))
      = Inr JUndefined"
    by (simp add: evaluate)
  have b: "parsePlayerStats example_externals (totalPoints_arguments Player_statics
      (lookup [(''id'', JNum (Num 7))] ''stats'') (JObj [])) = Inr JUndefined"
    by (simp add: evaluate)
  from responseMap_id_and_proTeam[OF a, of "\<lambda>d. d" False]
    responseMap_id_and_proTeam[OF b, of "\<lambda>d. d" False]
  show ?thesis by (simp add: evaluate)
qed

text \<open>
  C8. Without an \<^verbatim>\<open>eligibleSlots\<close> field the mapping sets \<^verbatim>\<open>eligiblePositions\<close> to
  the empty list: the field is on the result. When \<^verbatim>\<open>eligibleSlots\<close> is a list,
  \<^verbatim>\<open>eligiblePositions\<close> is the list of the lookups of its elements in the position
  table, in the same order and of the same length.
\<close>

theorem eligiblePositions_mapped:
  assumes "parsePlayerStats E (totalPoints_arguments cls (lookup w ''stats'') params) = Inr tp"
    and "w = working_copy mc fl document"
  shows "\<exists>r. map_document mc (responseMap E cls) (JObj document) params fl = Inr r
           \<and> ''eligiblePositions'' \<in> fst ` set r
           \<and> lookup r ''eligiblePositions''
               = eligiblePositions_manualParse E (lookup w ''eligibleSlots'')
           \<and> (''eligibleSlots'' \<notin> fst ` set w \<longrightarrow> lookup r ''eligiblePositions'' = JArr [])
           \<and> (\<forall>xs. lookup w ''eligibleSlots'' = JArr xs \<longrightarrow>
                 lookup r ''eligiblePositions''
                   = JArr (map (lodash_get E (slotCategoryIdToPositionMap E)) xs))"
proof -
  from assms map_document_returns[of E cls mc fl document params tp] obtain r where
    r: "map_document mc (responseMap E cls) (JObj document) params fl = Inr r" by auto
  have "(''eligiblePositions'', Structured (Some ''eligibleSlots'')
         (Some (\<lambda>responseData data rawData constructorParams.
            Inr (eligiblePositions_manualParse E responseData))) None) \<in> set (responseMap E cls)"
    by (simp add: responseMap_def)
  from mapped_field[OF r this, of "eligiblePositions_manualParse E (lookup w ''eligibleSlots'')"]
    assms(2)
  have "lookup r ''eligiblePositions'' = eligiblePositions_manualParse E (lookup w ''eligibleSlots'')"
    "''eligiblePositions'' \<in> fst ` set r"
    by (auto simp: eligiblePositions_never_absent)
  with r show ?thesis
    by (auto simp: lookup_absent eligiblePositions_absent eligiblePositions_list)
qed

theorem eligiblePositions_mapped_witness:
  "(\<exists>r. map_document (\<lambda>d. d) (responseMap example_externals Player_statics)
          (JObj [(''id'', JNum (Num 7))]) (JObj []) False = Inr r
        \<and> ''eligiblePositions'' \<in> fst ` set r \<and> lookup r ''eligiblePositions'' = JArr [])
   \<and> (\<exists>r. map_document (\<lambda>d. d) (responseMap example_externals Player_statics)
          (JObj [(''id'', JNum (Num 7)),
                 (''eligibleSlots'', JArr [JNum (Num 2), JNum (Num 0), JNum (Num 9)])])
          (JObj []) False = Inr r
        \<and> lookup r ''eligiblePositions'' = JArr [JStr ''RB'', JStr ''QB'', JUndefined])"
proof -
  have a: "parsePlayerStats example_externals (totalPoints_arguments Player_statics
      (lookup [(''id'', JNum (Num 7))] ''stats'') (JObj [])) = Inr JUndefined"
    by (simp add: evaluate)
  have b: "parsePlayerStats example_externals (totalPoints_arguments Player_statics
      (lookup [(''id'', JNum (Num 7)),
               (''eligibleSlots'', JArr [JNum (Num 2), JNum (Num 0), JNum (Num 9)])] ''stats'')
      (JObj [])) = Inr JUndefined"
    by (simp add: evaluate)
  from eligiblePositions_mapped[OF a, of "\<lambda>d. d" False]
    eligiblePositions_mapped[OF b, of "\<lambda>d. d" False]
  show ?thesis by (simp add: evaluate)
qed

text \<open>
  The transforms of \<^verbatim>\<open>Player\<close> read the raw value they are handed and, for
  \<^verbatim>\<open>totalPoints\<close>, the constructor parameters and the class: not the partial result
  and not the rest of the document. So the outcome of a mapping is decided by the values
  under the source keys of the map.
\<close>

lemma entries_read_source_key:
  "\<forall>(t, spec) \<in> set (responseMap E cls). \<forall>d1 d2 partial ps.
     lookup d1 (source_key t spec) = lookup d2 (source_key t spec) \<longrightarrow>
     resolve t spec d1 partial ps = resolve t spec d2 partial ps"
  by (simp add: responseMap_def totalPoints_manualParse_def)

lemma responseMap_reads_source_keys:
  assumes "\<forall>(t, spec) \<in> set (responseMap E cls).
             lookup d1 (source_key t spec) = lookup d2 (source_key t spec)"
  shows "map_fields (responseMap E cls) d1 ps res = map_fields (responseMap E cls) d2 ps res"
proof (rule map_fields_cong)
  fix t spec partial
  assume mem: "(t, spec) \<in> set (responseMap E cls)"
  with assms have "lookup d1 (source_key t spec) = lookup d2 (source_key t spec)" by blast
  with entries_read_source_key[of E cls] mem
  show "resolve t spec d1 partial ps = resolve t spec d2 partial ps" by blast
qed

text \<open>A mapping leaves the state alone when every entry does.\<close>

lemma map_fields_in_world_preserves:
  assumes "\<And>t spec partial. (t, spec) \<in> set es \<Longrightarrow>
             snd (resolve_in_world t spec doc partial ps w) = w"
  shows "snd (map_fields_in_world es doc ps res w) = w"
  using assms
proof (induction es arbitrary: res)
  case Nil
  then show ?case by simp
next
  case (Cons e es)
  obtain t0 spec0 where e: "e = (t0, spec0)" by (cases e)
  obtain out w' where r: "resolve_in_world t0 spec0 doc res ps w = (out, w')"
    by (cases "resolve_in_world t0 spec0 doc res ps w")
  from Cons.prems[of t0 spec0 res] e r have w': "w' = w" by simp
  have tail: "\<And>res'. snd (map_fields_in_world es doc ps res' w) = w"
    by (rule Cons.IH) (use Cons.prems in auto)
  from e r w' tail show ?case by (cases out) simp_all
qed

text \<open>
  Every entry of \<^verbatim>\<open>Player.responseMap\<close> leaves the state alone when the collaborator
  does: no transform of the file writes to the class or to anything else.
\<close>

lemma entries_preserve_world:
  assumes "\<forall>a. snd (stats a w) = w"
  shows "\<forall>(t, spec) \<in> set (responseMap_in_world E stats). \<forall>doc partial ps.
           snd (resolve_in_world t spec doc partial ps w) = w"
  using assms by (simp add: responseMap_in_world_def totalPoints_in_world_def)

lemma Player_map_in_world_preserves:
  assumes "\<forall>a. snd (stats a w) = w"
  shows "snd (Player_map_in_world E stats mc doc ps w) = w"
proof (cases doc)
  case (JObj document)
  have "snd (map_fields_in_world (responseMap_in_world E stats)
               (working_copy mc flattenResponse document) ps [] w) = w"
    by (rule map_fields_in_world_preserves)
      (use entries_preserve_world[where stats = stats and w = w and E = E] assms in blast)
  with JObj show ?thesis by (simp add: Player_map_in_world_def map_document_in_world_def)
qed (simp_all add: Player_map_in_world_def map_document_in_world_def)

text \<open>
  With a collaborator that leaves the state alone, the run in a state is the mapping of
  the sections above, read with the class properties of that state.
\<close>

lemma map_fields_in_world_pure:
  assumes "list_all2 (\<lambda>(t, se) (t', s). t = t' \<and>
             (\<forall>partial. resolve_in_world t se doc partial ps w = (resolve t' s doc partial ps, w)))
           ses es"
  shows "map_fields_in_world ses doc ps res w = (map_fields es doc ps res, w)"
  using assms
proof (induction ses es arbitrary: res rule: list_all2_induct)
  case Nil
  then show ?case by simp
next
  case (Cons se ses e es)
  obtain t0 s0 where se: "se = (t0, s0)" by (cases se)
  obtain t1 s1 where e: "e = (t1, s1)" by (cases e)
  from Cons.hyps(1) se e have t: "t0 = t1"
    and r: "resolve_in_world t0 s0 doc res ps w = (resolve t1 s1 doc res ps, w)" by auto
  show ?case using se e t r Cons.IH by (cases "resolve t1 s1 doc res ps") simp_all
qed

lemma responseMap_in_world_pure:
  assumes "\<forall>a. snd (stats a w) = w"
  shows "list_all2 (\<lambda>(t, se) (t', s). t = t' \<and>
             (\<forall>partial. resolve_in_world t se doc partial ps w = (resolve t' s doc partial ps, w)))
           (responseMap_in_world E stats)
           (responseMap (E\<lparr>parsePlayerStats := \<lambda>a. fst (stats a w)\<rparr>) (class_properties w))"
  using assms
  by (simp add: responseMap_in_world_def responseMap_def totalPoints_in_world_def
      totalPoints_manualParse_def jerseyNumber_manualParse_def proTeam_manualParse_def
      proTeamAbbreviation_manualParse_def defaultPosition_manualParse_def
      eligiblePositions_manualParse_def acquiredDate_manualParse_def prod_eq_iff Let_def)

lemma Player_map_in_world_pure:
  assumes "\<forall>a. snd (stats a w) = w"
  shows "Player_map_in_world E stats mc doc ps w =
           (Player_map (E\<lparr>parsePlayerStats := \<lambda>a. fst (stats a w)\<rparr>) (class_properties w) mc doc ps,
            w)"
proof (cases doc)
  case (JObj document)
  from map_fields_in_world_pure[OF responseMap_in_world_pure[where stats = stats and w = w, OF assms]]
  show ?thesis using JObj
    by (simp add: Player_map_in_world_def map_document_in_world_def Player_map_def map_document_def)
qed (simp_all add: Player_map_in_world_def map_document_in_world_def Player_map_def map_document_def)

lemmas evaluate_in_world =
  Player_map_in_world_def map_document_in_world_def responseMap_in_world_def
  totalPoints_in_world_def flattenResponse_def

text \<open>
  C5. Mapping the same document with the same constructor parameters twice, the second
  run starting in the state the first has left: when \<^verbatim>\<open>parsePlayerStats\<close> leaves the
  state alone, so does each run, the class properties read through \<^verbatim>\<open>this\<close>
  included, and the two runs end alike, with results that agree field by field.
\<close>

theorem Player_map_twice:
  assumes "\<forall>a w. snd (stats a w) = w"
    and "Player_map_in_world E stats mc rawDocument params w = (first, w1)"
    and "Player_map_in_world E stats mc rawDocument params w1 = (second, w2)"
  shows "w1 = w \<and> w2 = w \<and> first = second
         \<and> (\<forall>r1 r2. first = Inr r1 \<and> second = Inr r2 \<longrightarrow> (\<forall>k. lookup r1 k = lookup r2 k))"
proof -
  from assms(1) have p: "\<And>w. \<forall>a. snd (stats a w) = w" by simp
  from Player_map_in_world_preserves
    [where stats = stats and w = w and E = E and mc = mc and doc = rawDocument and ps = params]
    p[of w] assms(2)
  have w1: "w1 = w" by simp
  with assms(2,3) have "first = second" "w2 = w" by simp_all
  with w1 show ?thesis by auto
qed

theorem Player_map_twice_witness:
  "Player_map_in_world example_externals example_stats (\<lambda>d. d)
       (JObj [(''id'', JNum (Num 7)), (''jersey'', JStr ''12''),
              (''stats'', JObj [(''appliedTotal'', JNum (Num 21))])])
       (JObj [(''seasonId'', JNum (Num 2023))])
       \<lparr>class_properties = Player_statics, program_state = JNull\<rparr>
     = (Inr [(''id'', JNum (Num 7)), (''jerseyNumber'', JNum (Num 12)),
             (''totalPoints'', JNum (Num 21)), (''eligiblePositions'', JArr [])],
        \<lparr>class_properties = Player_statics, program_state = JNull\<rparr>)
   \<and> (\<forall>k. lookup [(''id'', JNum (Num 7)), (''jerseyNumber'', JNum (Num 12)),
             (''totalPoints'', JNum (Num 21)), (''eligiblePositions'', JArr [])] k
         = lookup [(''id'', JNum (Num 7)), (''jerseyNumber'', JNum (Num 12)),
             (''totalPoints'', JNum (Num 21)), (''eligiblePositions'', JArr [])] k)"
proof -
  let ?w = "\<lparr>class_properties = Player_statics, program_state = JNull\<rparr>"
  let ?doc = "JObj [(''id'', JNum (Num 7)), (''jersey'', JStr ''12''),
              (''stats'', JObj [(''appliedTotal'', JNum (Num 21))])]"
  let ?ps = "JObj [(''seasonId'', JNum (Num 2023))]"
  have pure: "\<forall>a w. snd (example_stats a w) = w" by (simp add: example_stats_def)
  have run: "Player_map_in_world example_externals example_stats (\<lambda>d. d) ?doc ?ps ?w
     = (Inr [(''id'', JNum (Num 7)), (''jerseyNumber'', JNum (Num 12)),
             (''totalPoints'', JNum (Num 21)), (''eligiblePositions'', JArr [])], ?w)"
    by (simp add: evaluate_in_world example_stats_def evaluate)
  from Player_map_twice[OF pure run run] run show ?thesis by simp
qed

text \<open>
  The condition on the collaborator is needed: with one that flips the program state,
  the second run sets another \<^verbatim>\<open>totalPoints\<close> than the first.
\<close>

lemma impure_collaborator_differs:
  "fst (Player_map_in_world example_externals counting_stats (\<lambda>d. d) (JObj [(''id'', JNum (Num 7))])
          (JObj []) \<lparr>class_properties = Player_statics, program_state = JNum (Num 0)\<rparr>)
     = Inr [(''id'', JNum (Num 7)), (''totalPoints'', JNum (Num 0)),
            (''eligiblePositions'', JArr [])]
   \<and> fst (Player_map_in_world example_externals counting_stats (\<lambda>d. d) (JObj [(''id'', JNum (Num 7))])
          (JObj [])
          (snd (Player_map_in_world example_externals counting_stats (\<lambda>d. d)
                  (JObj [(''id'', JNum (Num 7))]) (JObj [])
                  \<lparr>class_properties = Player_statics, program_state = JNum (Num 0)\<rparr>)))
     = Inr [(''id'', JNum (Num 7)), (''totalPoints'', JNum (Num 1)),
            (''eligiblePositions'', JArr [])]"
  by (simp add: evaluate_in_world counting_stats_def evaluate)


section \<open>The cache\<close>

text \<open>
  C4. When a construction of a \<^verbatim>\<open>Player\<close> has returned and its parameters have an
  identity key, a second request whose parameters have an equal key returns the same
  reference and leaves the cache as it is, the count of mapper runs included, whatever
  document comes with it. When one of \<^verbatim>\<open>id\<close>, \<^verbatim>\<open>seasonId\<close> and \<^verbatim>\<open>scoringPeriodId\<close>
  is withheld, the mapper runs, the object gets a new reference and the store is left
  alone.
\<close>

theorem Player_cache_hit_and_withheld:
  "(Player_getOrCreate E cls mc c doc1 p1 refresh = Inr (r1, c1) \<longrightarrow>
      getIDParams p1 = Inr key \<longrightarrow> key \<noteq> JUndefined \<longrightarrow> getIDParams p2 = Inr key \<longrightarrow>
      Player_getOrCreate E cls mc c1 doc2 p2 False = Inr (r1, c1))
   \<and> (k \<in> {''id'', ''seasonId'', ''scoringPeriodId''} \<longrightarrow> k \<notin> fst ` set ps \<longrightarrow>
      Player_map E cls mc doc (JObj ps) = Inr obj \<longrightarrow>
      Player_getOrCreate E cls mc c doc (JObj ps) refresh' =
        Inr (length (objects c),
             c\<lparr>objects := objects c @ [obj], mapper_runs := Suc (mapper_runs c)\<rparr>))"
proof (intro conjI impI)
  assume run: "Player_getOrCreate E cls mc c doc1 p1 refresh = Inr (r1, c1)"
    and key: "getIDParams p1 = Inr key" "key \<noteq> JUndefined" "getIDParams p2 = Inr key"
  from run key(1,2) have "map_of (store c1) key = Some r1"
    by (auto simp: Player_getOrCreate_def getOrCreate_def split: option.splits sum.splits if_splits)
  with key(2,3) show "Player_getOrCreate E cls mc c1 doc2 p2 False = Inr (r1, c1)"
    by (simp add: Player_getOrCreate_def getOrCreate_def)
next
  assume k: "k \<in> {''id'', ''seasonId'', ''scoringPeriodId''}" "k \<notin> fst ` set ps"
    and m: "Player_map E cls mc doc (JObj ps) = Inr obj"
  from k have "lookup ps k = JUndefined" by (simp add: lookup_absent)
  with k(1) have "getIDParams (JObj ps) = Inr JUndefined"
    by (auto simp: getIDParams_object)
  with m show "Player_getOrCreate E cls mc c doc (JObj ps) refresh' =
        Inr (length (objects c),
             c\<lparr>objects := objects c @ [obj], mapper_runs := Suc (mapper_runs c)\<rparr>)"
    by (simp add: Player_getOrCreate_def getOrCreate_def)
qed

text \<open>
  A first request with the key \<^verbatim>\<open>{id: 7, seasonId: 2023, scoringPeriodId: 1}\<close>, a second
  one with the same three values, another order and another document, and a third one
  without \<^verbatim>\<open>scoringPeriodId\<close>.
\<close>

theorem Player_cache_hit_and_withheld_witness:
  "Player_getOrCreate example_externals Player_statics (\<lambda>d. d)
       \<lparr>store = [], objects = [], mapper_runs = 0\<rparr>
       (JObj [(''id'', JNum (Num 7)), (''firstName'', JStr ''A'')])
       (JObj [(''id'', JNum (Num 7)), (''seasonId'', JNum (Num 2023)),
              (''scoringPeriodId'', JNum (Num 1))]) False
     = Inr (0, \<lparr>store = [(JObj [(''id'', JNum (Num 7)), (''seasonId'', JNum (Num 2023)),
                                 (''scoringPeriodId'', JNum (Num 1))], 0)],
               objects = [[(''id'', JNum (Num 7)), (''firstName'', JStr ''A''),
                           (''eligiblePositions'', JArr [])]],
               mapper_runs = 1\<rparr>)
   \<and> Player_getOrCreate example_externals Player_statics (\<lambda>d. d)
       \<lparr>store = [(JObj [(''id'', JNum (Num 7)), (''seasonId'', JNum (Num 2023)),
                                 (''scoringPeriodId'', JNum (Num 1))], 0)],
               objects = [[(''id'', JNum (Num 7)), (''firstName'', JStr ''A''),
                           (''eligiblePositions'', JArr [])]],
               mapper_runs = 1\<rparr>
       (JObj [(''id'', JNum (Num 7)), (''firstName'', JStr ''B'')])
       (JObj [(''scoringPeriodId'', JNum (Num 1)), (''id'', JNum (Num 7)),
              (''seasonId'', JNum (Num 2023)), (''leagueId'', JNum (Num 4))]) False
     = Inr (0, \<lparr>store = [(JObj [(''id'', JNum (Num 7)), (''seasonId'', JNum (Num 2023)),
                                 (''scoringPeriodId'', JNum (Num 1))], 0)],
               objects = [[(''id'', JNum (Num 7)), (''firstName'', JStr ''A''),
                           (''eligiblePositions'', JArr [])]],
               mapper_runs = 1\<rparr>)
   \<and> Player_getOrCreate example_externals Player_statics (\<lambda>d. d)
       \<lparr>store = [(JObj [(''id'', JNum (Num 7)), (''seasonId'', JNum (Num 2023)),
                                 (''scoringPeriodId'', JNum (Num 1))], 0)],
               objects = [[(''id'', JNum (Num 7)), (''firstName'', JStr ''A''),
                           (''eligiblePositions'', JArr [])]],
               mapper_runs = 1\<rparr>
       (JObj [(''id'', JNum (Num 7)), (''firstName'', JStr ''B'')])
       (JObj [(''id'', JNum (Num 7)), (''seasonId'', JNum (Num 2023))]) False
     = Inr (1, \<lparr>store = [(JObj [(''id'', JNum (Num 7)), (''seasonId'', JNum (Num 2023)),
                                 (''scoringPeriodId'', JNum (Num 1))], 0)],
               objects = [[(''id'', JNum (Num 7)), (''firstName'', JStr ''A''),
                           (''eligiblePositions'', JArr [])],
                          [(''id'', JNum (Num 7)), (''firstName'', JStr ''B''),
                           (''eligiblePositions'', JArr [])]],
               mapper_runs = 2\<rparr>)"
proof -
  let ?key = "JObj [(''id'', JNum (Num 7)), (''seasonId'', JNum (Num 2023)),
                    (''scoringPeriodId'', JNum (Num 1))]"
  let ?p1 = "JObj [(''id'', JNum (Num 7)), (''seasonId'', JNum (Num 2023)),
              (''scoringPeriodId'', JNum (Num 1))]"
  let ?p2 = "JObj [(''scoringPeriodId'', JNum (Num 1)), (''id'', JNum (Num 7)),
              (''seasonId'', JNum (Num 2023)), (''leagueId'', JNum (Num 4))]"
  let ?c1 = "\<lparr>store = [(?key, 0)],
               objects = [[(''id'', JNum (Num 7)), (''firstName'', JStr ''A''),
                           (''eligiblePositions'', JArr [])]],
               mapper_runs = 1\<rparr>"
  have k1: "getIDParams ?p1 = Inr ?key" and k2: "getIDParams ?p2 = Inr ?key"
    by (simp_all add: getIDParams_object lookup_def)
  have first: "Player_getOrCreate example_externals Player_statics (\<lambda>d. d)
       \<lparr>store = [], objects = [], mapper_runs = 0\<rparr>
       (JObj [(''id'', JNum (Num 7)), (''firstName'', JStr ''A'')]) ?p1 False = Inr (0, ?c1)"
    by (simp add: Player_getOrCreate_def getOrCreate_def k1 Player_map_def flattenResponse_def
        evaluate)
  have fresh: "Player_map example_externals Player_statics (\<lambda>d. d)
       (JObj [(''id'', JNum (Num 7)), (''firstName'', JStr ''B'')])
       (JObj [(''id'', JNum (Num 7)), (''seasonId'', JNum (Num 2023))])
     = Inr [(''id'', JNum (Num 7)), (''firstName'', JStr ''B''), (''eligiblePositions'', JArr [])]"
    by (simp add: Player_map_def flattenResponse_def evaluate)
  note hit = Player_cache_hit_and_withheld
    [where E = example_externals and cls = Player_statics and mc = "\<lambda>d. d"
       and c = "\<lparr>store = [], objects = [], mapper_runs = 0\<rparr>"
       and ?doc1.0 = "JObj [(''id'', JNum (Num 7)), (''firstName'', JStr ''A'')]"
       and ?p1.0 = ?p1 and refresh = False and ?r1.0 = 0 and ?c1.0 = ?c1 and key = ?key
       and ?p2.0 = ?p2
       and ?doc2.0 = "JObj [(''id'', JNum (Num 7)), (''firstName'', JStr ''B'')]",
     THEN conjunct1]
  note withheld = Player_cache_hit_and_withheld
    [where E = example_externals and cls = Player_statics and mc = "\<lambda>d. d"
       and c = ?c1 and k = "''scoringPeriodId''"
       and ps = "[(''id'', JNum (Num 7)), (''seasonId'', JNum (Num 2023))]"
       and doc = "JObj [(''id'', JNum (Num 7)), (''firstName'', JStr ''B'')]"
       and obj = "[(''id'', JNum (Num 7)), (''firstName'', JStr ''B''),
                   (''eligiblePositions'', JArr [])]"
       and refresh' = False,
     THEN conjunct2]
  from hit withheld first k1 k2 fresh show ?thesis by simp
qed

end
